theory Spec2Isabelle
  imports Main "HOL-Library.Word" "HOL-Library.Monad_Syntax"
begin

unbundle bit_operations_syntax

section \<open>Machine types and undefined behaviour\<close>

text \<open>
  The C source works on \<open>uint8_t\<close>, \<open>uint32_t\<close> and \<open>int32_t\<close>.  Unsigned values are
  words (arithmetic wraps).  A C execution that would read a table out of bounds or
  overflow a signed 32-bit computation has no defined result: such a step is \<open>None\<close>
  in the model, and every function that contains one returns an \<open>option\<close>.
\<close>

type_synonym u8 = "8 word"
type_synonym u32 = "32 word"

text \<open>Reading a constant C array: defined only below the array's length.\<close>

definition table_read :: "'a list \<Rightarrow> nat \<Rightarrow> 'a option" where
  "table_read t i = (if i < length t then Some (t ! i) else None)"

text \<open>
  A value of type \<open>int32_t\<close>: the mathematical result of a signed operation (or of a
  conversion to \<open>int32_t\<close>) is kept when it is representable and is undefined otherwise.
\<close>

definition s32 :: "int \<Rightarrow> int option" where
  "s32 v = (if - 2147483648 \<le> v \<and> v < 2147483648 then Some v else None)"

section \<open>The channel macros\<close>

text \<open>\<open>#define R(c) (((c) >> 16) & 0xff)\<close> and its two siblings.\<close>

definition R :: "u32 \<Rightarrow> u32" where
  "R c = drop_bit 16 c AND 0xff"

definition G :: "u32 \<Rightarrow> u32" where
  "G c = drop_bit 8 c AND 0xff"

definition B :: "u32 \<Rightarrow> u32" where
  "B c = c AND 0xff"

section \<open>Index to colour\<close>

definition system_colours :: "u32 list" where
  "system_colours =
    [0x000000, 0xce0000, 0x00ce00, 0xcece00,
     0x0000ee, 0xce00ce, 0x00cece, 0xefefef,
     0x7f7f7f, 0xff0000, 0x00ff00, 0xffff00,
     0x5c5cff, 0xff00ff, 0x00ffff, 0xffffff]"

text \<open>The local table \<open>values\<close> of the C function \<open>cube_value\<close>.\<close>

definition cube_values :: "u8 list" where
  "cube_values = [0, 95, 135, 175, 215, 255]"

definition cube_value :: "u8 \<Rightarrow> u32 option" where
  "cube_value idx = map_option ucast (table_read cube_values (unat idx))"

definition rgb_from_ansi256 :: "u8 \<Rightarrow> u32 option" where
  "rgb_from_ansi256 index =
    (if index AND 0xf0 = 0 then table_read system_colours (unat index)
     else if index < 232 then
       (let index = index - 16 in
        do {
          r \<leftarrow> cube_value (index div 36);
          g \<leftarrow> cube_value (index div 6 mod 6);
          b \<leftarrow> cube_value (index mod 6);
          Some (push_bit 16 r OR push_bit 8 g OR b)
        })
     else
       (let index = (index - 232) * 10 + 8 in
        Some (ucast index * 0x010101)))"

section \<open>Channel quantisers\<close>

text \<open>
  The macro \<open>CUBE_THRESHOLDS(a, b, c, d, e)\<close> expands to a chain of comparisons; \<open>IDX\<close>
  is redefined before each of the three functions, so it is a parameter here.
\<close>

definition CUBE_THRESHOLDS ::
  "(u32 \<Rightarrow> u32 \<Rightarrow> u32) \<Rightarrow> u8 \<Rightarrow> u8 \<Rightarrow> u8 \<Rightarrow> u8 \<Rightarrow> u8 \<Rightarrow> u8 \<Rightarrow> u32" where
  "CUBE_THRESHOLDS IDX a b c d e v =
    (if v < a then IDX 0 0
     else if v < b then IDX 1 95
     else if v < c then IDX 2 135
     else if v < d then IDX 3 175
     else if v < e then IDX 4 215
     else IDX 5 255)"

definition IDX_red :: "u32 \<Rightarrow> u32 \<Rightarrow> u32" where
  "IDX_red i v = push_bit 24 (i * 36 + 16) OR push_bit 16 v"

definition IDX_green :: "u32 \<Rightarrow> u32 \<Rightarrow> u32" where
  "IDX_green i v = push_bit 24 (i * 6) OR push_bit 8 v"

definition IDX_blue :: "u32 \<Rightarrow> u32 \<Rightarrow> u32" where
  "IDX_blue i v = push_bit 24 i OR v"

definition cube_index_red :: "u8 \<Rightarrow> u32" where
  "cube_index_red v = CUBE_THRESHOLDS IDX_red 38 115 155 196 235 v"

definition cube_index_green :: "u8 \<Rightarrow> u32" where
  "cube_index_green v = CUBE_THRESHOLDS IDX_green 36 116 154 195 235 v"

definition cube_index_blue :: "u8 \<Rightarrow> u32" where
  "cube_index_blue v = CUBE_THRESHOLDS IDX_blue 35 115 155 195 235 v"

section \<open>Luminance and distance\<close>

definition luminance :: "u32 \<Rightarrow> u8" where
  "luminance rgb =
    ucast (drop_bit 24 (3568058 * R rgb + 11998262 * G rgb + 1210896 * B rgb))"

text \<open>
  \<open>distance\<close> computes in \<open>int32_t\<close>.  Each conversion and each signed operation is a
  checked step, in the order in which C evaluates the expression
  \<open>(1024 + r_sum) * r * r + 2048 * g * g + (1534 - r_sum) * b * b\<close>; the result is
  converted to \<open>uint32_t\<close> on return.
\<close>

definition distance :: "u32 \<Rightarrow> u32 \<Rightarrow> u32 option" where
  "distance x y =
    do {
      r_sum \<leftarrow> s32 (uint (R x + R y));
      rx \<leftarrow> s32 (uint (R x));
      ry \<leftarrow> s32 (uint (R y));
      r \<leftarrow> s32 (rx - ry);
      gx \<leftarrow> s32 (uint (G x));
      gy \<leftarrow> s32 (uint (G y));
      g \<leftarrow> s32 (gx - gy);
      bx \<leftarrow> s32 (uint (B x));
      by \<leftarrow> s32 (uint (B y));
      b \<leftarrow> s32 (bx - by);
      t1 \<leftarrow> s32 (1024 + r_sum);
      t2 \<leftarrow> s32 (t1 * r);
      t3 \<leftarrow> s32 (t2 * r);
      t4 \<leftarrow> s32 (2048 * g);
      t5 \<leftarrow> s32 (t4 * g);
      t6 \<leftarrow> s32 (t3 + t5);
      t7 \<leftarrow> s32 (1534 - r_sum);
      t8 \<leftarrow> s32 (t7 * b);
      t9 \<leftarrow> s32 (t8 * b);
      t10 \<leftarrow> s32 (t6 + t9);
      Some (word_of_int t10)
    }"

section \<open>Colour to index\<close>

definition ansi256_from_grey :: "u8 list" where
  "ansi256_from_grey =
    [ 16,  16,  16,  16,  16, 232, 232, 232,
     232, 232, 232, 232, 232, 232, 233, 233,
     233, 233, 233, 233, 233, 233, 233, 233,
     234, 234, 234, 234, 234, 234, 234, 234,
     234, 234, 235, 235, 235, 235, 235, 235,
     235, 235, 235, 235, 236, 236, 236, 236,
     236, 236, 236, 236, 236, 236, 237, 237,
     237, 237, 237, 237, 237, 237, 237, 237,
     238, 238, 238, 238, 238, 238, 238, 238,
     238, 238, 239, 239, 239, 239, 239, 239,
     239, 239, 239, 239, 240, 240, 240, 240,
     240, 240, 240, 240,  59,  59,  59,  59,
      59, 241, 241, 241, 241, 241, 241, 241,
     242, 242, 242, 242, 242, 242, 242, 242,
     242, 242, 243, 243, 243, 243, 243, 243,
     243, 243, 243, 244, 244, 244, 244, 244,
     244, 244, 244, 244, 102, 102, 102, 102,
     102, 245, 245, 245, 245, 245, 245, 246,
     246, 246, 246, 246, 246, 246, 246, 246,
     246, 247, 247, 247, 247, 247, 247, 247,
     247, 247, 247, 248, 248, 248, 248, 248,
     248, 248, 248, 248, 145, 145, 145, 145,
     145, 249, 249, 249, 249, 249, 249, 250,
     250, 250, 250, 250, 250, 250, 250, 250,
     250, 251, 251, 251, 251, 251, 251, 251,
     251, 251, 251, 252, 252, 252, 252, 252,
     252, 252, 252, 252, 188, 188, 188, 188,
     188, 253, 253, 253, 253, 253, 253, 254,
     254, 254, 254, 254, 254, 254, 254, 254,
     254, 255, 255, 255, 255, 255, 255, 255,
     255, 255, 255, 255, 255, 255, 255, 231,
     231, 231, 231, 231, 231, 231, 231, 231]"

definition ansi256_from_rgb :: "u32 \<Rightarrow> u8 option" where
  "ansi256_from_rgb rgb =
    (if R rgb = G rgb \<and> G rgb = B rgb then
       table_read ansi256_from_grey (unat (rgb AND 0xff))
     else
       do {
         grey_index \<leftarrow> table_read ansi256_from_grey (unat (luminance rgb));
         grey_rgb \<leftarrow> rgb_from_ansi256 grey_index;
         grey_distance \<leftarrow> distance rgb grey_rgb;
         let cube = cube_index_red (ucast (R rgb)) + cube_index_green (ucast (G rgb))
                    + cube_index_blue (ucast (B rgb));
         cube_distance \<leftarrow> distance rgb cube;
         Some (if cube_distance < grey_distance then ucast (drop_bit 24 cube) else grey_index)
       })"

text \<open>
  The same function in two pieces, for statements about what the fast path depends on.
  \<open>non_grey_block\<close> is the sequence of statements after the fast path (the grey
  candidate from the luminance, its distance, the cube candidate, its distance, the
  comparison).  \<open>ansi256_from_rgb_with ng\<close> is the body of \<open>ansi256_from_rgb\<close> with an
  arbitrary computation \<open>ng\<close> in the place of those statements.
\<close>

definition non_grey_block :: "u32 \<Rightarrow> u8 option" where
  "non_grey_block rgb =
    do {
      grey_index \<leftarrow> table_read ansi256_from_grey (unat (luminance rgb));
      grey_rgb \<leftarrow> rgb_from_ansi256 grey_index;
      grey_distance \<leftarrow> distance rgb grey_rgb;
      let cube = cube_index_red (ucast (R rgb)) + cube_index_green (ucast (G rgb))
                 + cube_index_blue (ucast (B rgb));
      cube_distance \<leftarrow> distance rgb cube;
      Some (if cube_distance < grey_distance then ucast (drop_bit 24 cube) else grey_index)
    }"

definition ansi256_from_rgb_with :: "(u32 \<Rightarrow> u8 option) \<Rightarrow> u32 \<Rightarrow> u8 option" where
  "ansi256_from_rgb_with ng rgb =
    (if R rgb = G rgb \<and> G rgb = B rgb then
       table_read ansi256_from_grey (unat (rgb AND 0xff))
     else ng rgb)"

section \<open>Reference formulas\<close>

text \<open>
  The definitions of this section are not translations of C functions.  They write down
  what the description of the library says in terms of channel values and palette
  digits, so that the C functions above can be compared with them.
\<close>

text \<open>
  A colour packed from its three channel bytes, red in the highest byte, as the example
  program does it: \<open>(r << 16) | (g << 8) | b\<close>.
\<close>

definition pack :: "u8 \<Rightarrow> u8 \<Rightarrow> u8 \<Rightarrow> u32" where
  "pack r g b = push_bit 16 (ucast r) OR push_bit 8 (ucast g) OR ucast b"

text \<open>
  The distance heuristic as a formula over the integers, with no machine arithmetic:
  \<open>r_sum\<close> is the sum of the two red channels, the other three values are the signed
  channel differences.
\<close>

definition distance_formula :: "u32 \<Rightarrow> u32 \<Rightarrow> int" where
  "distance_formula x y =
    (let r_sum = uint (R x) + uint (R y);
         dr = uint (R x) - uint (R y);
         dg = uint (G x) - uint (G y);
         db = uint (B x) - uint (B y)
     in (1024 + r_sum) * dr\<^sup>2 + 2048 * dg\<^sup>2 + (1534 - r_sum) * db\<^sup>2)"

text \<open>
  Threshold quantisation of one channel: the thresholds are tried in increasing order,
  the digit is the position of the first threshold above the value, and the top digit
  when there is none.
\<close>

fun first_bucket :: "nat list \<Rightarrow> nat \<Rightarrow> nat" where
  "first_bucket [] v = 0"
| "first_bucket (t # ts) v = (if v < t then 0 else Suc (first_bucket ts v))"

definition red_digit :: "nat \<Rightarrow> nat" where
  "red_digit v = first_bucket [38, 115, 155, 196, 235] v"

definition green_digit :: "nat \<Rightarrow> nat" where
  "green_digit v = first_bucket [36, 116, 154, 195, 235] v"

definition blue_digit :: "nat \<Rightarrow> nat" where
  "blue_digit v = first_bucket [35, 115, 155, 195, 235] v"

text \<open>The palette index of the cube candidate, \<open>16 + 36 * r_digit + 6 * g_digit + b_digit\<close>.\<close>

definition cube_candidate :: "u32 \<Rightarrow> u8" where
  "cube_candidate rgb =
    of_nat (16 + 36 * red_digit (unat (R rgb)) + 6 * green_digit (unat (G rgb))
            + blue_digit (unat (B rgb)))"

text \<open>The luminance estimate \<open>(3568058 * R + 11998262 * G + 1210896 * B) >> 24\<close> over the naturals.\<close>

definition luminance_formula :: "u32 \<Rightarrow> nat" where
  "luminance_formula rgb =
    (3568058 * unat (R rgb) + 11998262 * unat (G rgb) + 1210896 * unat (B rgb)) div 2 ^ 24"

section \<open>Channels are bytes\<close>

lemma and_ff_uint: "0 \<le> uint (w AND (0xff :: u32)) \<and> uint (w AND (0xff :: u32)) < 256"
proof -
  have "w AND 0xff \<le> 0xff" by (rule word_and_le1)
  then have "uint (w AND 0xff) \<le> uint (0xff :: u32)" by (simp only: word_le_def)
  then show ?thesis by simp
qed

lemma R_range: "0 \<le> uint (R c) \<and> uint (R c) < 256"
  unfolding R_def by (rule and_ff_uint)

lemma G_range: "0 \<le> uint (G c) \<and> uint (G c) < 256"
  unfolding G_def by (rule and_ff_uint)

lemma B_range: "0 \<le> uint (B c) \<and> uint (B c) < 256"
  unfolding B_def by (rule and_ff_uint)

lemma uint_R_add: "uint (R x + R y) = uint (R x) + uint (R y)"
  using R_range [of x] R_range [of y] by (simp add: uint_word_ariths)

section \<open>The distance never leaves \<open>int32_t\<close>\<close>

lemma s32_Some: "\<bar>v\<bar> < 2147483648 \<Longrightarrow> s32 v = Some v"
  by (simp add: s32_def abs_less_iff)

lemma abs_mult_bound: "\<bar>a\<bar> \<le> m \<Longrightarrow> \<bar>b\<bar> \<le> n \<Longrightarrow> \<bar>a * b\<bar> \<le> m * (n :: int)"
  by (simp add: abs_mult mult_mono)

lemma abs_add_less: "\<bar>a\<bar> \<le> m \<Longrightarrow> \<bar>b\<bar> \<le> n \<Longrightarrow> m + n < k \<Longrightarrow> \<bar>a + b\<bar> < (k :: int)"
  by arith

lemma abs_add_le: "\<bar>a\<bar> \<le> m \<Longrightarrow> \<bar>b\<bar> \<le> n \<Longrightarrow> \<bar>a + b\<bar> \<le> m + (n :: int)"
  by arith

text \<open>
  The twenty checked steps of \<open>distance\<close> on six byte-sized channel values: every
  intermediate value is bounded, so every step is defined, and the final sum lies
  between 0 and \<open>5116 * 255\<^sup>2\<close>.
\<close>

lemma distance_steps:
  fixes rx ry gx gy bx "by" :: int
  assumes "0 \<le> rx" "rx < 256" "0 \<le> ry" "ry < 256"
    and "0 \<le> gx" "gx < 256" "0 \<le> gy" "gy < 256"
    and "0 \<le> bx" "bx < 256" "0 \<le> by" "by < 256"
  defines "w \<equiv> (1024 + (rx + ry)) * (rx - ry)\<^sup>2 + 2048 * (gx - gy)\<^sup>2
                 + (1534 - (rx + ry)) * (bx - by)\<^sup>2"
  shows "do {
      r_sum \<leftarrow> s32 (rx + ry);
      rx' \<leftarrow> s32 rx;
      ry' \<leftarrow> s32 ry;
      r \<leftarrow> s32 (rx' - ry');
      gx' \<leftarrow> s32 gx;
      gy' \<leftarrow> s32 gy;
      g \<leftarrow> s32 (gx' - gy');
      bx' \<leftarrow> s32 bx;
      by' \<leftarrow> s32 by;
      b \<leftarrow> s32 (bx' - by');
      t1 \<leftarrow> s32 (1024 + r_sum);
      t2 \<leftarrow> s32 (t1 * r);
      t3 \<leftarrow> s32 (t2 * r);
      t4 \<leftarrow> s32 (2048 * g);
      t5 \<leftarrow> s32 (t4 * g);
      t6 \<leftarrow> s32 (t3 + t5);
      t7 \<leftarrow> s32 (1534 - r_sum);
      t8 \<leftarrow> s32 (t7 * b);
      t9 \<leftarrow> s32 (t8 * b);
      t10 \<leftarrow> s32 (t6 + t9);
      Some (word_of_int t10 :: u32)
    } = Some (word_of_int w) \<and> 0 \<le> w \<and> w < 2147483648"
proof -
  define r g b where "r = rx - ry" and "g = gx - gy" and "b = bx - by"
  define t1 t7 where "t1 = 1024 + (rx + ry)" and "t7 = 1534 - (rx + ry)"
  have r: "\<bar>r\<bar> \<le> 255" and g: "\<bar>g\<bar> \<le> 255" and b: "\<bar>b\<bar> \<le> 255"
    using assms(1-12) by (auto simp: r_def g_def b_def)
  have t1: "\<bar>t1\<bar> \<le> 1534" and t7: "\<bar>t7\<bar> \<le> 1534" and t1p: "0 \<le> t1" and t7p: "0 \<le> t7"
    using assms(1-12) by (auto simp: t1_def t7_def)
  have t2: "\<bar>t1 * r\<bar> \<le> 1534 * 255" using t1 r by (rule abs_mult_bound)
  have t3: "\<bar>t1 * r * r\<bar> \<le> 1534 * 255 * 255" using t2 r by (rule abs_mult_bound)
  have t4: "\<bar>2048 * g\<bar> \<le> 2048 * 255" using g by simp
  have t5: "\<bar>2048 * g * g\<bar> \<le> 2048 * 255 * 255" using t4 g by (rule abs_mult_bound)
  have t8: "\<bar>t7 * b\<bar> \<le> 1534 * 255" using t7 b by (rule abs_mult_bound)
  have t9: "\<bar>t7 * b * b\<bar> \<le> 1534 * 255 * 255" using t8 b by (rule abs_mult_bound)
  have t3p: "0 \<le> t1 * r * r" using t1p by (simp add: mult.assoc)
  have t5p: "0 \<le> 2048 * g * g" by (simp add: mult.assoc)
  have t9p: "0 \<le> t7 * b * b" using t7p by (simp add: mult.assoc)
  have t6: "\<bar>t1 * r * r + 2048 * g * g\<bar> < 2147483648"
    using t3 t5 by (rule abs_add_less) simp
  have t6': "\<bar>t1 * r * r + 2048 * g * g\<bar> \<le> 1534 * 255 * 255 + 2048 * 255 * 255"
    using t3 t5 by (rule abs_add_le)
  have t10: "\<bar>t1 * r * r + 2048 * g * g + t7 * b * b\<bar> < 2147483648"
    using t6' t9 by (rule abs_add_less) simp
  have w: "w = t1 * r * r + 2048 * g * g + t7 * b * b"
    by (simp add: w_def r_def g_def b_def t1_def t7_def power2_eq_square mult.assoc)
  have s: "s32 (rx + ry) = Some (rx + ry)" "s32 rx = Some rx" "s32 ry = Some ry"
    "s32 gx = Some gx" "s32 gy = Some gy" "s32 bx = Some bx" "s32 by = Some by"
    "s32 (rx - ry) = Some r" "s32 (gx - gy) = Some g" "s32 (bx - by) = Some b"
    "s32 (1024 + (rx + ry)) = Some t1" "s32 (1534 - (rx + ry)) = Some t7"
    using assms(1-12) by (auto simp: s32_def r_def g_def b_def t1_def t7_def)
  have s': "s32 (t1 * r) = Some (t1 * r)" "s32 (t1 * r * r) = Some (t1 * r * r)"
    "s32 (2048 * g) = Some (2048 * g)" "s32 (2048 * g * g) = Some (2048 * g * g)"
    "s32 (t7 * b) = Some (t7 * b)" "s32 (t7 * b * b) = Some (t7 * b * b)"
    "s32 (t1 * r * r + 2048 * g * g) = Some (t1 * r * r + 2048 * g * g)"
    "s32 (t1 * r * r + 2048 * g * g + t7 * b * b) = Some (t1 * r * r + 2048 * g * g + t7 * b * b)"
    using t2 t3 t4 t5 t8 t9 t6 t10 by (simp_all add: s32_Some)
  have nonneg: "0 \<le> t1 * r * r + 2048 * g * g + t7 * b * b"
    using t3p t5p t9p by (rule_tac add_nonneg_nonneg [OF add_nonneg_nonneg])
  have less: "t1 * r * r + 2048 * g * g + t7 * b * b < 2147483648"
    using t10 by (simp only: abs_less_iff)
  show ?thesis
    using nonneg less by (simp only: s s' w bind.bind_lunit simp_thms)
qed

lemma distance_defined:
  "distance x y = Some (word_of_int (distance_formula x y))
   \<and> 0 \<le> distance_formula x y \<and> distance_formula x y < 2147483648"
  using distance_steps [of "uint (R x)" "uint (R y)" "uint (G x)" "uint (G y)"
      "uint (B x)" "uint (B y)"]
    R_range [of x] R_range [of y] G_range [of x] G_range [of y] B_range [of x] B_range [of y]
  by (simp add: distance_def distance_formula_def uint_R_add Let_def)

lemma distance_formula_commute: "distance_formula x y = distance_formula y x"
  by (simp add: distance_formula_def Let_def add.commute power2_commute)

lemma distance_formula_self: "distance_formula x x = 0"
  by (simp add: distance_formula_def)

section \<open>The distance heuristic\<close>

text \<open>
  Claim C6.  For all colours \<open>x\<close> and \<open>y\<close> (any 32-bit values; only the three channel
  bytes are read): the distance of a colour to itself is 0; the distance is symmetric;
  and the signed computation \<open>(1024 + r_sum) * dr\<^sup>2 + 2048 * dg\<^sup>2 + (1534 - r_sum) * db\<^sup>2\<close>
  is defined at every step, that is, no intermediate value leaves the range of
  \<open>int32_t\<close>, and its value is the integer given by the formula, which is never negative
  and is below \<open>2\<^sup>3\<^sup>1\<close>.
\<close>

theorem distance_sane:
  "distance x x = Some 0
   \<and> distance x y = distance y x
   \<and> distance x y = Some (word_of_int (distance_formula x y))
   \<and> 0 \<le> distance_formula x y
   \<and> distance_formula x y < 2147483648
   \<and> uint (the (distance x y)) = distance_formula x y"
proof -
  have "uint (word_of_int (distance_formula x y) :: u32) = distance_formula x y"
    using distance_defined [of x y] by (simp add: uint_word_of_int)
  then show ?thesis
    using distance_defined [of x y] distance_defined [of y x] distance_defined [of x x]
    by (simp add: distance_formula_commute [of y x] distance_formula_self)
qed

section \<open>Exhaustive case analysis on bytes\<close>

lemma all_less_numeral:
  "(\<forall>n < numeral k. P n) = (P (pred_numeral k) \<and> (\<forall>n < pred_numeral k. P n))"
  by (simp add: numeral_eq_Suc All_less_Suc)

lemma u8_all: "(\<forall>w::u8. P w) = (\<forall>n < 256. P (of_nat n))"
proof
  assume *: "\<forall>n < 256. P (of_nat n)"
  show "\<forall>w::u8. P w"
  proof
    fix w :: u8
    have "unat w < 256" using unsigned_less [of w] by simp
    then have "P (of_nat (unat w))" using * by blast
    then show "P w" by simp
  qed
qed simp

lemma low_nibble: "(index AND 0xf0 = 0) = (index < 16)" for index :: u8
proof -
  have "\<forall>i :: u8. (i AND 0xf0 = 0) = (i < 16)"
    unfolding u8_all by (simp add: all_less_numeral)
  then show ?thesis by blast
qed

section \<open>Packed colours\<close>

lemma grey_replicate: "ucast l * 0x010101 = pack l l l" for l :: u8
proof -
  have "\<forall>l :: u8. ucast l * 0x010101 = pack l l l"
    unfolding u8_all by (simp add: all_less_numeral pack_def)
  then show ?thesis by blast
qed

lemma ff_mask: "(0xff :: u32) = mask 8"
  by (simp add: mask_eq_exp_minus_1)

lemma R_pack: "R (pack r g b) = ucast r"
  unfolding R_def pack_def ff_mask
  by (rule bit_word_eqI) (auto simp add: bit_simps dest: bit_imp_le_length)

lemma G_pack: "G (pack r g b) = ucast g"
  unfolding G_def pack_def ff_mask
  by (rule bit_word_eqI) (auto simp add: bit_simps dest: bit_imp_le_length)

lemma B_pack: "B (pack r g b) = ucast b"
  unfolding B_def pack_def ff_mask
  by (rule bit_word_eqI) (auto simp add: bit_simps dest: bit_imp_le_length)

section \<open>The three regions of the palette\<close>

lemma cube_value_Some: "unat d < 6 \<Longrightarrow> cube_value d = Some (ucast (cube_values ! unat d))"
  by (simp add: cube_value_def table_read_def cube_values_def)

lemma rgb_system: "index < 16 \<Longrightarrow> rgb_from_ansi256 index = Some (system_colours ! unat index)"
  by (simp add: rgb_from_ansi256_def low_nibble table_read_def system_colours_def word_less_nat_alt)

lemma rgb_cube:
  assumes "16 \<le> index" "index < 232"
  shows "rgb_from_ansi256 index =
    Some (pack (cube_values ! ((unat index - 16) div 36))
               (cube_values ! ((unat index - 16) div 6 mod 6))
               (cube_values ! ((unat index - 16) mod 6)))"
proof -
  define i where "i = index - 16"
  have nib: "index AND 0xf0 \<noteq> 0" using assms(1) by (simp add: low_nibble)
  have ui: "unat i = unat index - 16" using assms(1) by (simp add: i_def unat_sub)
  have "unat index < 232" using assms(2) by (simp add: word_less_nat_alt)
  then have lt: "unat i < 216" using ui assms(1) by (simp add: word_le_nat_alt)
  have d1: "unat (i div 36) = unat i div 36" by (simp add: unat_div)
  have d2: "unat (i div 6 mod 6) = unat i div 6 mod 6" by (simp add: unat_div unat_mod)
  have d3: "unat (i mod 6) = unat i mod 6" by (simp add: unat_mod)
  have b1: "unat (i div 36) < 6" using lt unfolding d1 by simp
  have b2: "unat (i div 6 mod 6) < 6" unfolding d2 by simp
  have b3: "unat (i mod 6) < 6" unfolding d3 by simp
  show ?thesis
    using nib assms(2)
    by (simp add: rgb_from_ansi256_def Let_def i_def [symmetric]
        cube_value_Some [OF b1] cube_value_Some [OF b2] cube_value_Some [OF b3]
        d1 d2 d3 ui pack_def)
qed

lemma rgb_grey:
  assumes "232 \<le> index"
  shows "rgb_from_ansi256 index = Some (pack ((index - 232) * 10 + 8) ((index - 232) * 10 + 8) ((index - 232) * 10 + 8))"
    and "unat ((index - 232) * 10 + 8) = (unat index - 232) * 10 + 8"
proof -
  have "\<not> index < 16" using assms by (simp add: word_le_nat_alt word_less_nat_alt)
  then have nib: "index AND 0xf0 \<noteq> 0" by (simp add: low_nibble)
  have ge: "\<not> index < 232" using assms by simp
  show "rgb_from_ansi256 index = Some (pack ((index - 232) * 10 + 8) ((index - 232) * 10 + 8) ((index - 232) * 10 + 8))"
    using nib ge by (simp add: rgb_from_ansi256_def Let_def grey_replicate)
  define j where "j = index - 232"
  have a: "unat j = unat index - 232" using assms by (simp add: j_def unat_sub)
  have "unat index < 256" using unsigned_less [of index] by simp
  then have small: "unat j < 24" using a by simp
  have ten: "unat (10 :: u8) = 10" and eight: "unat (8 :: u8) = 8" by simp_all
  have "unat j * unat (10 :: u8) < 2 ^ LENGTH(8)" using small by (simp only: ten) simp
  then have m: "unat (j * 10) = unat j * 10"
    by (simp only: unat_mult_lem [THEN iffD1] ten)
  have "unat (j * 10) + unat (8 :: u8) < 2 ^ LENGTH(8)" using small by (simp only: m eight) simp
  then have "unat (j * 10 + 8) = unat j * 10 + 8"
    by (simp only: unat_add_lem [THEN iffD1] m eight)
  then show "unat ((index - 232) * 10 + 8) = (unat index - 232) * 10 + 8"
    by (simp only: j_def [symmetric] a)
qed

text \<open>
  Claim C5.  For every index below 16, \<open>rgb_from_ansi256\<close> returns the entry of the
  16-entry table of system colours at that index (the read is inside the table); in
  particular index 0 gives \<open>0x000000\<close>, index 7 gives \<open>0xefefef\<close> and index 15 gives
  \<open>0xffffff\<close>.
\<close>

theorem rgb_from_ansi256_system:
  "(index < 16 \<longrightarrow>
      unat index < length system_colours
      \<and> rgb_from_ansi256 index = Some (system_colours ! unat index))
   \<and> length system_colours = 16
   \<and> rgb_from_ansi256 0 = Some 0x000000
   \<and> rgb_from_ansi256 7 = Some 0xefefef
   \<and> rgb_from_ansi256 15 = Some 0xffffff"
proof -
  have "unat index < length system_colours" if "index < 16"
    using that by (simp add: system_colours_def word_less_nat_alt)
  moreover have "rgb_from_ansi256 0 = Some 0x000000" "rgb_from_ansi256 7 = Some 0xefefef"
    "rgb_from_ansi256 15 = Some 0xffffff"
    by (simp_all add: rgb_system system_colours_def)
  moreover have "length system_colours = 16" by (simp add: system_colours_def)
  ultimately show ?thesis by (simp add: rgb_system)
qed

theorem rgb_from_ansi256_system_witness:
  "(3 :: u8) < 16 \<and> rgb_from_ansi256 3 = Some 0xcece00"
  using rgb_from_ansi256_system [of 3] by (simp add: system_colours_def)

text \<open>
  Claim C3.  For every index from 16 to 231, \<open>rgb_from_ansi256\<close> returns the colour
  packed, red in the highest byte, from the cube levels \<open>0, 95, 135, 175, 215, 255\<close> at
  the base-6 digits \<open>(index - 16) / 36\<close>, \<open>((index - 16) / 6) % 6\<close> and
  \<open>(index - 16) % 6\<close>; in particular index 196 gives \<open>0xff0000\<close>.
\<close>

theorem rgb_from_ansi256_colour_cube:
  "(16 \<le> index \<and> index \<le> 231 \<longrightarrow>
      rgb_from_ansi256 index =
        Some (pack ([0, 95, 135, 175, 215, 255] ! ((unat index - 16) div 36))
                   ([0, 95, 135, 175, 215, 255] ! ((unat index - 16) div 6 mod 6))
                   ([0, 95, 135, 175, 215, 255] ! ((unat index - 16) mod 6))))
   \<and> rgb_from_ansi256 196 = Some 0xff0000"
proof -
  have "index < 232" if "index \<le> 231"
    using that by (simp add: word_le_nat_alt word_less_nat_alt)
  moreover have "rgb_from_ansi256 196 = Some 0xff0000"
    by (simp add: rgb_cube cube_values_def pack_def)
  ultimately show ?thesis
    using rgb_cube [of index] by (simp add: cube_values_def)
qed

theorem rgb_from_ansi256_colour_cube_witness:
  "(16 :: u8) \<le> 100 \<and> (100 :: u8) \<le> 231 \<and> rgb_from_ansi256 100 = Some 0x878700"
  using rgb_from_ansi256_colour_cube [of 100] by (simp add: pack_def)

text \<open>
  Claim C4.  For every index from 232 to 255, \<open>rgb_from_ansi256\<close> returns the grey whose
  three channels all equal \<open>(index - 232) * 10 + 8\<close>, a value of at most 238; in
  particular index 232 gives \<open>0x080808\<close> and index 255 gives \<open>0xeeeeee\<close>.
\<close>

theorem rgb_from_ansi256_grey_ramp:
  "(232 \<le> index \<longrightarrow>
      (let level = (unat index - 232) * 10 + 8
       in level \<le> 238
          \<and> rgb_from_ansi256 index = Some (pack (of_nat level) (of_nat level) (of_nat level))))
   \<and> rgb_from_ansi256 232 = Some 0x080808
   \<and> rgb_from_ansi256 255 = Some 0xeeeeee"
proof -
  have ramp: "rgb_from_ansi256 i =
      Some (pack (of_nat ((unat i - 232) * 10 + 8)) (of_nat ((unat i - 232) * 10 + 8))
                 (of_nat ((unat i - 232) * 10 + 8)))"
    if "232 \<le> i" for i :: u8
  proof -
    have "(word_of_nat (unat ((i - 232) * 10 + 8)) :: u8) = (i - 232) * 10 + 8"
      by simp
    then have "(word_of_nat ((unat i - 232) * 10 + 8) :: u8) = (i - 232) * 10 + 8"
      by (simp only: rgb_grey(2) [OF that])
    then show ?thesis
      using rgb_grey(1) [OF that] by (simp only:)
  qed
  have "unat index < 256" using unsigned_less [of index] by simp
  then have "(unat index - 232) * 10 + 8 \<le> 238" by simp
  moreover have "rgb_from_ansi256 232 = Some 0x080808" "rgb_from_ansi256 255 = Some 0xeeeeee"
    by (simp_all add: ramp pack_def)
  ultimately show ?thesis
    using ramp [of index] by (simp add: Let_def)
qed

theorem rgb_from_ansi256_grey_ramp_witness:
  "(232 :: u8) \<le> 240 \<and> rgb_from_ansi256 240 = Some 0x585858"
  using rgb_from_ansi256_grey_ramp [of 240] by (simp add: pack_def)

section \<open>The cube candidate\<close>

lemma first_bucket_le: "first_bucket ts v \<le> length ts"
  by (induction ts) auto

lemma red_digit_less: "red_digit v < 6"
  using first_bucket_le [of "[38, 115, 155, 196, 235]" v]
  by (simp add: red_digit_def del: first_bucket.simps)

lemma green_digit_less: "green_digit v < 6"
  using first_bucket_le [of "[36, 116, 154, 195, 235]" v]
  by (simp add: green_digit_def del: first_bucket.simps)

lemma blue_digit_less: "blue_digit v < 6"
  using first_bucket_le [of "[35, 115, 155, 195, 235]" v]
  by (simp add: blue_digit_def del: first_bucket.simps)

lemma cube_index_red_eq:
  "cube_index_red v =
    IDX_red (of_nat (red_digit (unat v))) (ucast (cube_values ! red_digit (unat v)))"
  by (simp add: cube_index_red_def CUBE_THRESHOLDS_def red_digit_def word_less_nat_alt
      cube_values_def)

lemma cube_index_green_eq:
  "cube_index_green v =
    IDX_green (of_nat (green_digit (unat v))) (ucast (cube_values ! green_digit (unat v)))"
  by (simp add: cube_index_green_def CUBE_THRESHOLDS_def green_digit_def word_less_nat_alt
      cube_values_def)

lemma cube_index_blue_eq:
  "cube_index_blue v =
    IDX_blue (of_nat (blue_digit (unat v))) (ucast (cube_values ! blue_digit (unat v)))"
  by (simp add: cube_index_blue_def CUBE_THRESHOLDS_def blue_digit_def word_less_nat_alt
      cube_values_def)

lemma cube_sum_all:
  "\<forall>dr < 6. \<forall>dg < 6. \<forall>db < 6.
     (let cube = IDX_red (of_nat dr) (ucast (cube_values ! dr))
               + IDX_green (of_nat dg) (ucast (cube_values ! dg))
               + IDX_blue (of_nat db) (ucast (cube_values ! db))
      in drop_bit 24 cube = of_nat (16 + 36 * dr + 6 * dg + db)
         \<and> cube AND 0xffffff = pack (cube_values ! dr) (cube_values ! dg) (cube_values ! db))"
  by (simp add: all_less_numeral IDX_red_def IDX_green_def IDX_blue_def cube_values_def pack_def)

lemma base6_digits:
  fixes dr dg db :: nat
  assumes "dg < 6" "db < 6"
  shows "(36 * dr + 6 * dg + db) div 36 = dr"
    and "(36 * dr + 6 * dg + db) div 6 mod 6 = dg"
    and "(36 * dr + 6 * dg + db) mod 6 = db"
proof -
  have e6: "36 * dr + 6 * dg + db = 6 * (6 * dr + dg) + db" by simp
  have e36: "36 * dr + 6 * dg + db = 36 * dr + (6 * dg + db)" by simp
  have small: "6 * dg + db < 36" using assms by simp
  show "(36 * dr + 6 * dg + db) div 36 = dr"
    unfolding e36 using small by simp
  have d6: "(36 * dr + 6 * dg + db) div 6 = 6 * dr + dg"
    unfolding e6 using assms(2) by simp
  show "(36 * dr + 6 * dg + db) div 6 mod 6 = dg"
    unfolding d6 using assms(1) by simp
  show "(36 * dr + 6 * dg + db) mod 6 = db"
    using assms(2) by (simp only: e6 mod_mult_self4 mod_less)
qed

lemma rgb_cube_digits:
  fixes dr dg db :: nat
  assumes "dr < 6" "dg < 6" "db < 6"
  defines "idx \<equiv> (of_nat (16 + 36 * dr + 6 * dg + db) :: u8)"
  shows "unat idx = 16 + 36 * dr + 6 * dg + db"
    and "16 \<le> idx" and "idx \<le> 231"
    and "rgb_from_ansi256 idx = Some (pack (cube_values ! dr) (cube_values ! dg) (cube_values ! db))"
proof -
  have "16 + 36 * dr + 6 * dg + db < 2 ^ LENGTH(8)" using assms(1-3) by simp
  then show u: "unat idx = 16 + 36 * dr + 6 * dg + db"
    by (simp only: idx_def unat_of_nat mod_less)
  show ge: "16 \<le> idx" by (simp add: word_le_nat_alt u)
  show le: "idx \<le> 231" using assms(1-3) by (simp add: word_le_nat_alt u)
  have lt: "idx < 232" using assms(1-3) by (simp add: word_less_nat_alt u)
  have off: "unat idx - 16 = 36 * dr + 6 * dg + db" by (simp add: u)
  show "rgb_from_ansi256 idx = Some (pack (cube_values ! dr) (cube_values ! dg) (cube_values ! db))"
    by (simp only: rgb_cube [OF ge lt] off base6_digits [OF assms(2,3)])
qed

lemma ffffff_mask: "(0xffffff :: u32) = mask 24"
  by (simp add: mask_eq_exp_minus_1)

lemma R_low24: "R (c AND 0xffffff) = R c"
  unfolding R_def ff_mask ffffff_mask
  by (rule bit_word_eqI) (auto simp add: bit_simps)

lemma G_low24: "G (c AND 0xffffff) = G c"
  unfolding G_def ff_mask ffffff_mask
  by (rule bit_word_eqI) (auto simp add: bit_simps)

lemma B_low24: "B (c AND 0xffffff) = B c"
  unfolding B_def ff_mask ffffff_mask
  by (rule bit_word_eqI) (auto simp add: bit_simps)

lemma distance_low24: "distance x (c AND 0xffffff) = distance x c"
  by (simp add: distance_def R_low24 G_low24 B_low24)

lemma len32: "LENGTH(32) = 32"
  by simp

text \<open>The packed cube candidate of three channel bytes.\<close>

lemma cube_packed:
  fixes r g b :: u8
  defines "cube \<equiv> cube_index_red r + cube_index_green g + cube_index_blue b"
  defines "idx \<equiv> 16 + 36 * red_digit (unat r) + 6 * green_digit (unat g) + blue_digit (unat b)"
  shows "drop_bit 24 cube = of_nat idx"
    and "ucast (drop_bit 24 cube) = (of_nat idx :: u8)"
    and "rgb_from_ansi256 (of_nat idx) = Some (cube AND 0xffffff)"
    and "(16 :: u8) \<le> of_nat idx" and "(of_nat idx :: u8) \<le> 231"
proof -
  note less = red_digit_less [of "unat r"] green_digit_less [of "unat g"]
    blue_digit_less [of "unat b"]
  have both: "drop_bit 24 cube = of_nat idx
      \<and> cube AND 0xffffff = pack (cube_values ! red_digit (unat r))
          (cube_values ! green_digit (unat g)) (cube_values ! blue_digit (unat b))"
    using cube_sum_all less
    unfolding cube_def idx_def cube_index_red_eq cube_index_green_eq cube_index_blue_eq Let_def
    by blast
  then show top: "drop_bit 24 cube = of_nat idx" by simp
  have "idx < 2 ^ 32" using less by (simp add: idx_def)
  then have "take_bit LENGTH(32) idx = idx" by (simp only: take_bit_nat_eq_self len32)
  then show "ucast (drop_bit 24 cube) = (of_nat idx :: u8)"
    by (simp only: top unsigned_of_nat)
  show "rgb_from_ansi256 (of_nat idx) = Some (cube AND 0xffffff)"
    using rgb_cube_digits(4) [OF less] both by (simp only: idx_def)
  show "(16 :: u8) \<le> of_nat idx" "(of_nat idx :: u8) \<le> 231"
    using rgb_cube_digits(2,3) [OF less] by (simp_all only: idx_def)
qed

section \<open>The grey table, luminance and the two paths of \<open>ansi256_from_rgb\<close>\<close>

lemma grey_table_length: "length ansi256_from_grey = 256"
  by (simp add: ansi256_from_grey_def)

lemma grey_table_read:
  "table_read ansi256_from_grey (unat w) = Some (ansi256_from_grey ! unat w)" for w :: u8
  using unsigned_less [of w] by (simp add: table_read_def grey_table_length)

lemma grey_table_ge16: "list_all (\<lambda>i. 16 \<le> i) ansi256_from_grey"
  by (simp add: ansi256_from_grey_def)

lemma grey_entry_ge16: "16 \<le> ansi256_from_grey ! unat w" for w :: u8
proof -
  have "unat w < length ansi256_from_grey"
    using unsigned_less [of w] by (simp add: grey_table_length)
  then show ?thesis
    using grey_table_ge16 by (simp only: list_all_length)
qed

lemma rgb_total: "\<exists>c. rgb_from_ansi256 index = Some c"
proof -
  consider "index < 16" | "16 \<le> index" "index < 232" | "232 \<le> index"
    by (cases "index < 16"; cases "index < 232") (simp_all add: not_less)
  then show ?thesis
  proof cases
    case 1
    then show ?thesis by (simp add: rgb_system)
  next
    case 2
    then show ?thesis by (simp add: rgb_cube)
  next
    case 3
    then show ?thesis by (simp add: rgb_grey(1))
  qed
qed

lemma unat_and_ff: "unat (w AND (0xff :: u32)) < 256"
proof -
  have "w AND 0xff \<le> 0xff" by (rule word_and_le1)
  then have "unat (w AND 0xff) \<le> unat (0xff :: u32)" by (simp only: word_le_nat_alt)
  then show ?thesis by simp
qed

lemma unat_channel_byte:
  "unat (ucast (w AND (0xff :: u32)) :: u8) = unat (w AND 0xff)"
proof -
  have "unat (w AND (0xff :: u32)) < 2 ^ LENGTH(8)" using unat_and_ff [of w] by simp
  then show ?thesis
    by (simp only: unsigned_ucast_eq take_bit_nat_eq_self)
qed

lemma unat_scale:
  fixes k w :: u32
  assumes "unat k * 255 < 4294967296" "unat w < 256"
  shows "unat (k * w) = unat k * unat w"
proof -
  have "unat k * unat w \<le> unat k * 255" using assms(2) by simp
  then have "unat k * unat w < 4294967296" using assms(1) by (rule le_less_trans)
  then have "unat k * unat w < 2 ^ LENGTH(32)" by simp
  then show ?thesis by (simp only: unat_mult_lem [THEN iffD1])
qed

lemma unat_luminance: "unat (luminance rgb) = luminance_formula rgb"
proof -
  define r g b where "r = unat (R rgb)" and "g = unat (G rgb)" and "b = unat (B rgb)"
  have r: "r < 256" and g: "g < 256" and b: "b < 256"
    unfolding r_def g_def b_def R_def G_def B_def by (rule unat_and_ff)+
  have pr: "unat (3568058 * R rgb) = 3568058 * r"
    using unat_scale [of 3568058 "R rgb"] r by (simp add: r_def)
  have pg: "unat (11998262 * G rgb) = 11998262 * g"
    using unat_scale [of 11998262 "G rgb"] g by (simp add: g_def)
  have pb: "unat (1210896 * B rgb) = 1210896 * b"
    using unat_scale [of 1210896 "B rgb"] b by (simp add: b_def)
  have "unat (3568058 * R rgb) + unat (11998262 * G rgb) < 2 ^ LENGTH(32)"
    unfolding pr pg using r g by simp
  then have s1: "unat (3568058 * R rgb + 11998262 * G rgb) = 3568058 * r + 11998262 * g"
    by (simp only: unat_add_lem [THEN iffD1] pr pg)
  have "unat (3568058 * R rgb + 11998262 * G rgb) + unat (1210896 * B rgb) < 2 ^ LENGTH(32)"
    unfolding s1 pb using r g b by simp
  then have s: "unat (3568058 * R rgb + 11998262 * G rgb + 1210896 * B rgb)
      = 3568058 * r + 11998262 * g + 1210896 * b"
    by (simp only: unat_add_lem [THEN iffD1] s1 pb)
  have "3568058 * r + 11998262 * g + 1210896 * b < 256 * 2 ^ 24"
    using r g b by simp
  then have lt: "(3568058 * r + 11998262 * g + 1210896 * b) div 2 ^ 24 < 256"
    by (simp only: less_mult_imp_div_less)
  have "unat (luminance rgb)
      = (3568058 * r + 11998262 * g + 1210896 * b) div 2 ^ 24 mod 2 ^ LENGTH(8)"
    unfolding luminance_def unsigned_ucast_eq unat_drop_bit_eq s
    by (simp only: take_bit_eq_mod drop_bit_eq_div)
  also have "\<dots> = (3568058 * r + 11998262 * g + 1210896 * b) div 2 ^ 24"
    using lt by simp
  finally show ?thesis by (simp only: r_def g_def b_def luminance_formula_def)
qed

lemma luminance_formula_less: "luminance_formula rgb < 256"
proof -
  have "unat (luminance rgb) < 2 ^ LENGTH(8)" by (rule unsigned_less)
  then show ?thesis by (simp add: unat_luminance)
qed

text \<open>The cube candidate as the C code packs it, and its palette index.\<close>

lemma cube_of_rgb:
  defines "cube rgb \<equiv> cube_index_red (ucast (R rgb)) + cube_index_green (ucast (G rgb))
                     + cube_index_blue (ucast (B rgb))"
  shows "ucast (drop_bit 24 (cube rgb)) = cube_candidate rgb"
    and "drop_bit 24 (cube rgb) = ucast (cube_candidate rgb)"
    and "rgb_from_ansi256 (cube_candidate rgb) = Some (cube rgb AND 0xffffff)"
    and "16 \<le> cube_candidate rgb" and "cube_candidate rgb \<le> 231"
proof -
  have ch: "unat (ucast (R rgb) :: u8) = unat (R rgb)" "unat (ucast (G rgb) :: u8) = unat (G rgb)"
    "unat (ucast (B rgb) :: u8) = unat (B rgb)"
    unfolding R_def G_def B_def by (rule unat_channel_byte)+
  show "ucast (drop_bit 24 (cube rgb)) = cube_candidate rgb"
    using cube_packed(2) [of "ucast (R rgb)" "ucast (G rgb)" "ucast (B rgb)"]
    by (simp only: cube_def cube_candidate_def ch)
  have "drop_bit 24 (cube rgb) = of_nat (unat (cube_candidate rgb))"
    using cube_packed(1) [of "ucast (R rgb)" "ucast (G rgb)" "ucast (B rgb)"]
      rgb_cube_digits(1) [OF red_digit_less green_digit_less blue_digit_less,
        of "unat (R rgb)" "unat (G rgb)" "unat (B rgb)"]
    by (simp only: cube_def cube_candidate_def ch)
  then show "drop_bit 24 (cube rgb) = ucast (cube_candidate rgb)"
    by simp
  show "rgb_from_ansi256 (cube_candidate rgb) = Some (cube rgb AND 0xffffff)"
    using cube_packed(3) [of "ucast (R rgb)" "ucast (G rgb)" "ucast (B rgb)"]
    by (simp only: cube_def cube_candidate_def ch)
  show "16 \<le> cube_candidate rgb" "cube_candidate rgb \<le> 231"
    using cube_packed(4,5) [of "ucast (R rgb)" "ucast (G rgb)" "ucast (B rgb)"]
    by (simp_all only: cube_candidate_def ch)
qed

lemma ansi256_from_rgb_grey_path:
  assumes "R rgb = G rgb \<and> G rgb = B rgb"
  shows "ansi256_from_rgb rgb = Some (ansi256_from_grey ! unat (B rgb))"
proof -
  have "unat (B rgb) < 256" unfolding B_def by (rule unat_and_ff)
  then show ?thesis
    using assms by (simp add: ansi256_from_rgb_def table_read_def grey_table_length B_def)
qed

lemma ansi256_from_rgb_cube_path:
  assumes "\<not> (R rgb = G rgb \<and> G rgb = B rgb)"
  defines "grey_index \<equiv> ansi256_from_grey ! luminance_formula rgb"
  shows "\<exists>grey_rgb cube_rgb grey_distance cube_distance.
      rgb_from_ansi256 grey_index = Some grey_rgb
    \<and> rgb_from_ansi256 (cube_candidate rgb) = Some cube_rgb
    \<and> distance rgb grey_rgb = Some grey_distance
    \<and> distance rgb cube_rgb = Some cube_distance
    \<and> ansi256_from_rgb rgb =
        Some (if cube_distance < grey_distance then cube_candidate rgb else grey_index)"
proof -
  define cube where "cube = cube_index_red (ucast (R rgb)) + cube_index_green (ucast (G rgb))
     + cube_index_blue (ucast (B rgb))"
  obtain grey_rgb where g: "rgb_from_ansi256 grey_index = Some grey_rgb"
    using rgb_total by blast
  obtain grey_distance where gd: "distance rgb grey_rgb = Some grey_distance"
    using distance_defined by blast
  obtain cube_distance where cd: "distance rgb cube = Some cube_distance"
    using distance_defined by blast
  have c: "rgb_from_ansi256 (cube_candidate rgb) = Some (cube AND 0xffffff)"
    unfolding cube_def by (rule cube_of_rgb(3))
  have cd': "distance rgb (cube AND 0xffffff) = Some cube_distance"
    by (simp only: distance_low24 cd)
  have top: "ucast (drop_bit 24 cube) = cube_candidate rgb"
    unfolding cube_def by (rule cube_of_rgb(1))
  have t: "table_read ansi256_from_grey (unat (luminance rgb)) = Some grey_index"
    using grey_table_read [of "luminance rgb"] by (simp only: unat_luminance grey_index_def)
  have "ansi256_from_rgb rgb =
      Some (if cube_distance < grey_distance then cube_candidate rgb else grey_index)"
    unfolding ansi256_from_rgb_def if_not_P [OF assms(1)]
    by (simp add: t g gd cube_def [symmetric] cd top Let_def)
  then show ?thesis
    using g c gd cd' by blast
qed

section \<open>Colour to index: the claims\<close>

lemma unat_ucast_up: "unat (ucast w :: u32) = unat w" for w :: u8
proof -
  have "unat w < 2 ^ LENGTH(8)" by (rule unsigned_less)
  then have "unat w < 2 ^ LENGTH(32)" by simp
  then show ?thesis by (simp only: unsigned_ucast_eq take_bit_nat_eq_self)
qed

lemma unat_B_byte: "unat (ucast (B rgb) :: u8) = unat (B rgb)"
  unfolding B_def by (rule unat_channel_byte)

lemma ansi256_from_rgb_ge16: "\<exists>i. ansi256_from_rgb rgb = Some i \<and> 16 \<le> i"
proof (cases "R rgb = G rgb \<and> G rgb = B rgb")
  case True
  have "16 \<le> ansi256_from_grey ! unat (ucast (B rgb) :: u8)" by (rule grey_entry_ge16)
  then show ?thesis
    using ansi256_from_rgb_grey_path [OF True] by (simp add: unat_B_byte)
next
  case False
  have "16 \<le> ansi256_from_grey ! unat (luminance rgb)" by (rule grey_entry_ge16)
  then have "16 \<le> ansi256_from_grey ! luminance_formula rgb" by (simp only: unat_luminance)
  then show ?thesis
    using ansi256_from_rgb_cube_path [OF False] cube_of_rgb(4) [of rgb] by auto
qed

text \<open>
  Claim C1.  For every input whose three channels are not all equal, the grey candidate
  is the entry of the grey table at the luminance \<open>(3568058 * R + 11998262 * G + 1210896 * B) >> 24\<close>
  (a read inside the table), the cube candidate is the index
  \<open>16 + 36 * r_digit + 6 * g_digit + b_digit\<close> of the threshold quantisation of the three
  channels, both candidates have a reconstructed colour and a distance to the input, and
  \<open>ansi256_from_rgb\<close> returns the cube candidate exactly when its distance is strictly
  smaller than the grey candidate's, and the grey candidate otherwise.
\<close>

theorem ansi256_from_rgb_non_grey:
  assumes "\<not> (R rgb = G rgb \<and> G rgb = B rgb)"
  shows "\<exists>grey_index grey_rgb cube_rgb grey_distance cube_distance.
      table_read ansi256_from_grey (luminance_formula rgb) = Some grey_index
    \<and> rgb_from_ansi256 grey_index = Some grey_rgb
    \<and> rgb_from_ansi256 (cube_candidate rgb) = Some cube_rgb
    \<and> distance rgb grey_rgb = Some grey_distance
    \<and> distance rgb cube_rgb = Some cube_distance
    \<and> ansi256_from_rgb rgb =
        Some (if cube_distance < grey_distance then cube_candidate rgb else grey_index)"
proof -
  have "table_read ansi256_from_grey (luminance_formula rgb)
      = Some (ansi256_from_grey ! luminance_formula rgb)"
    using grey_table_read [of "luminance rgb"] by (simp only: unat_luminance)
  then show ?thesis
    using ansi256_from_rgb_cube_path [OF assms] by blast
qed

theorem ansi256_from_rgb_non_grey_witness:
  "\<not> (R 0x3c78c8 = G 0x3c78c8 \<and> G 0x3c78c8 = B 0x3c78c8)
   \<and> (\<exists>grey_index grey_rgb cube_rgb grey_distance cube_distance.
      table_read ansi256_from_grey (luminance_formula 0x3c78c8) = Some grey_index
    \<and> rgb_from_ansi256 grey_index = Some grey_rgb
    \<and> rgb_from_ansi256 (cube_candidate 0x3c78c8) = Some cube_rgb
    \<and> distance 0x3c78c8 grey_rgb = Some grey_distance
    \<and> distance 0x3c78c8 cube_rgb = Some cube_distance
    \<and> ansi256_from_rgb 0x3c78c8 =
        Some (if cube_distance < grey_distance then cube_candidate 0x3c78c8 else grey_index))"
proof -
  have h: "\<not> (R 0x3c78c8 = G 0x3c78c8 \<and> G 0x3c78c8 = B 0x3c78c8)"
    by (simp add: R_def G_def B_def)
  show ?thesis
    using h ansi256_from_rgb_non_grey [OF h] by (rule conjI)
qed

lemma ansi256_from_rgb_split: "ansi256_from_rgb rgb = ansi256_from_rgb_with non_grey_block rgb"
  by (simp only: ansi256_from_rgb_def ansi256_from_rgb_with_def non_grey_block_def)

lemma ansi256_from_rgb_with_grey:
  "ansi256_from_rgb_with ng (pack r r r) = Some (ansi256_from_grey ! unat r)"
proof -
  have eq: "R (pack r r r) = G (pack r r r) \<and> G (pack r r r) = B (pack r r r)"
    by (simp only: R_pack G_pack B_pack)
  have "unat (pack r r r AND 0xff) = unat r"
    by (simp only: B_def [symmetric] B_pack unat_ucast_up)
  moreover have "unat r < length ansi256_from_grey"
    using unsigned_less [of r] by (simp add: grey_table_length)
  ultimately have "table_read ansi256_from_grey (unat (pack r r r AND 0xff))
      = Some (ansi256_from_grey ! unat r)"
    by (simp add: table_read_def)
  then show ?thesis
    by (simp only: ansi256_from_rgb_with_def if_P [OF eq])
qed

text \<open>
  Claim C2.  For every channel value \<open>r\<close>, \<open>ansi256_from_rgb\<close> applied to the grey
  \<open>pack r r r\<close> returns the entry of the grey table at position \<open>r\<close>, a position inside the
  table.  This result is independent of the non-grey path: \<open>ansi256_from_rgb\<close> is its own
  body with the statements after the fast path as \<open>non_grey_block\<close>, and whatever
  computation \<open>ng\<close> stands in the place of those statements (any luminance, any cube
  quantisation, any distance, even one that has no result), the body returns the same
  table entry on \<open>pack r r r\<close>; \<open>ng\<close> is not consulted.
\<close>

theorem ansi256_from_rgb_exact_grey:
  "ansi256_from_rgb (pack r r r) = Some (ansi256_from_grey ! unat r)
   \<and> unat r < length ansi256_from_grey
   \<and> ansi256_from_rgb rgb = ansi256_from_rgb_with non_grey_block rgb
   \<and> ansi256_from_rgb_with ng (pack r r r) = Some (ansi256_from_grey ! unat r)
   \<and> ansi256_from_rgb_with (\<lambda>c. None) (pack r r r) = ansi256_from_rgb (pack r r r)"
proof -
  have "unat r < length ansi256_from_grey"
    using unsigned_less [of r] by (simp add: grey_table_length)
  then show ?thesis
    by (simp only: ansi256_from_rgb_split ansi256_from_rgb_with_grey simp_thms)
qed

text \<open>
  Claim C7.  \<open>ansi256_from_rgb\<close> maps \<open>0xff0000\<close> to 196, \<open>0x000000\<close> to 16 and \<open>0xffffff\<close>
  to 231; these three colours are the forward images of the indices 196, 16 and 231, and
  the channels of \<open>0xff0000\<close> are not all equal, so that case runs through luminance,
  cube quantisation and the comparison of distances.
\<close>

theorem reverse_of_forward_corners:
  "ansi256_from_rgb 0xff0000 = Some 196
   \<and> ansi256_from_rgb 0x000000 = Some 16
   \<and> ansi256_from_rgb 0xffffff = Some 231
   \<and> rgb_from_ansi256 196 = Some 0xff0000
   \<and> rgb_from_ansi256 16 = Some 0x000000
   \<and> rgb_from_ansi256 231 = Some 0xffffff
   \<and> \<not> (R 0xff0000 = G 0xff0000 \<and> G 0xff0000 = B 0xff0000)"
proof -
  have "ansi256_from_rgb 0xff0000 = Some 196"
    by (simp add: ansi256_from_rgb_def R_def G_def B_def luminance_def table_read_def
        ansi256_from_grey_def rgb_from_ansi256_def distance_def s32_def
        cube_index_red_def cube_index_green_def cube_index_blue_def CUBE_THRESHOLDS_def
        IDX_red_def IDX_green_def IDX_blue_def)
  moreover have "ansi256_from_rgb 0x000000 = Some 16" "ansi256_from_rgb 0xffffff = Some 231"
    by (simp_all add: ansi256_from_rgb_def R_def G_def B_def table_read_def
        ansi256_from_grey_def)
  moreover have "rgb_from_ansi256 196 = Some 0xff0000" "rgb_from_ansi256 16 = Some 0x000000"
    "rgb_from_ansi256 231 = Some 0xffffff"
    by (simp_all add: rgb_cube cube_values_def pack_def)
  moreover have "\<not> (R 0xff0000 = G 0xff0000 \<and> G 0xff0000 = B 0xff0000)"
    by (simp add: R_def G_def B_def)
  ultimately show ?thesis by (simp only: simp_thms)
qed

text \<open>
  Claim C8.  Both conversions are total: \<open>rgb_from_ansi256\<close> has a result for each of the
  256 indices and \<open>ansi256_from_rgb\<close> for every 32-bit value, hence for each of the
  \<open>2\<^sup>2\<^sup>4\<close> colours.  A read outside a table has no result in the model (the last three
  conjuncts: position 16 of the system colours, position 256 of the grey table, argument
  6 of \<open>cube_value\<close>), so a result means that every read on the path taken was inside
  its table and that no signed step of the distance overflowed.
\<close>

theorem conversions_total:
  "(\<exists>c. rgb_from_ansi256 index = Some c)
   \<and> (\<exists>i. ansi256_from_rgb rgb = Some i)
   \<and> table_read system_colours 16 = None
   \<and> table_read ansi256_from_grey 256 = None
   \<and> cube_value 6 = None"
proof -
  have "table_read system_colours 16 = None" by (simp add: table_read_def system_colours_def)
  moreover have "table_read ansi256_from_grey 256 = None"
    by (simp add: table_read_def grey_table_length)
  moreover have "cube_value 6 = None"
    by (simp add: cube_value_def table_read_def cube_values_def)
  moreover have "\<exists>i. ansi256_from_rgb rgb = Some i"
    using ansi256_from_rgb_ge16 [of rgb] by blast
  ultimately show ?thesis
    using rgb_total [of index] by (simp only: simp_thms)
qed

text \<open>
  Claim C9.  For every input, the packed cube candidate
  \<open>cube_index_red R + cube_index_green G + cube_index_blue B\<close> has a top byte between 16
  and 231, its low 24 bits are the colour that \<open>rgb_from_ansi256\<close> returns for that top
  byte, and \<open>distance\<close> gives the same value on the packed candidate as on its low 24
  bits, the reconstructed colour.
\<close>

theorem cube_candidate_self_consistent:
  "(let cube = cube_index_red (ucast (R rgb)) + cube_index_green (ucast (G rgb))
               + cube_index_blue (ucast (B rgb));
        top = drop_bit 24 cube
    in 16 \<le> top \<and> top \<le> 231
       \<and> rgb_from_ansi256 (ucast top) = Some (cube AND 0xffffff)
       \<and> distance rgb cube = distance rgb (cube AND 0xffffff))"
proof -
  define cube where "cube = cube_index_red (ucast (R rgb)) + cube_index_green (ucast (G rgb))
    + cube_index_blue (ucast (B rgb))"
  have top: "drop_bit 24 cube = ucast (cube_candidate rgb)"
    unfolding cube_def by (rule cube_of_rgb(2))
  have byte: "ucast (drop_bit 24 cube) = cube_candidate rgb"
    unfolding cube_def by (rule cube_of_rgb(1))
  note u = unat_ucast_up [of "cube_candidate rgb"]
  have "16 \<le> unat (cube_candidate rgb)" "unat (cube_candidate rgb) \<le> 231"
    using cube_of_rgb(4,5) [of rgb] by (simp_all add: word_le_nat_alt)
  then have range: "16 \<le> drop_bit 24 cube" "drop_bit 24 cube \<le> 231"
    unfolding top by (simp_all add: word_le_nat_alt u)
  have "rgb_from_ansi256 (ucast (drop_bit 24 cube)) = Some (cube AND 0xffffff)"
    unfolding byte unfolding cube_def by (rule cube_of_rgb(3))
  then show ?thesis
    using range by (simp only: Let_def cube_def [symmetric] distance_low24 simp_thms)
qed

text \<open>
  Claim C10.  For every input, \<open>ansi256_from_rgb\<close> returns an index of at least 16: every
  entry of the grey table is at least 16 and the cube candidate lies between 16 and 231.
  So no system colour is ever returned, not even for an input that is one: \<open>0x7f7f7f\<close> is
  the colour of index 8 and is mapped to index 244.
\<close>

theorem ansi256_from_rgb_never_system:
  "(\<exists>i. ansi256_from_rgb rgb = Some i \<and> 16 \<le> i)
   \<and> list_all (\<lambda>i. 16 \<le> i) ansi256_from_grey
   \<and> 16 \<le> cube_candidate rgb \<and> cube_candidate rgb \<le> 231
   \<and> rgb_from_ansi256 8 = Some 0x7f7f7f
   \<and> ansi256_from_rgb 0x7f7f7f = Some 244"
proof -
  have "rgb_from_ansi256 8 = Some 0x7f7f7f"
    by (simp add: rgb_system system_colours_def)
  moreover have "ansi256_from_rgb 0x7f7f7f = Some 244"
    by (simp add: ansi256_from_rgb_def R_def G_def B_def table_read_def ansi256_from_grey_def)
  ultimately show ?thesis
    using ansi256_from_rgb_ge16 [of rgb] grey_table_ge16 cube_of_rgb(4,5) [of rgb]
    by (simp only: simp_thms)
qed

end
